theory Spec2Isabelle
  imports Complex_Main "HOL-Library.Multiset"
begin

section \<open>Graph Explorer: the curve-analysis core of main.py\<close>

text \<open>
  The program is a Tk application; its computing part is three functions and one
  event handler: \<open>safe_eval_expression\<close>, \<open>slope_at_point\<close>,
  \<open>GraphApp._plot_points\<close> and \<open>GraphApp.draw_chart\<close>. They are embedded below
  as HOL functions. Exceptions are values of a sum type (\<open>Inl\<close> the exception), the
  widgets and the matplotlib axes are a record that is passed in and returned, and what
  the program takes from Python and NumPy (the parser behind \<open>eval\<close>, float
  arithmetic with rounding, \<open>argsort\<close>, \<open>polyfit\<close>, the random generator, ...)
  is a record of functions, \<open>host\<close>, that every embedded function receives. Theorems
  quantify over the host; \<open>np_exact\<close> is one host, computing in exact rational
  arithmetic, on which the model runs.
\<close>

subsection \<open>Floating-point values\<close>

text \<open>
  A float64 is a finite value, an infinity or NaN. Finite values are rationals here:
  rounding is not modelled, and every operation whose rounding matters is taken from
  the host.
\<close>

datatype float64 = Fin rat | PInf | NInf | NaN

fun isfinite :: "float64 \<Rightarrow> bool" where
  "isfinite (Fin q) = True"
| "isfinite v = False"

fun isnan :: "float64 \<Rightarrow> bool" where
  "isnan NaN = True"
| "isnan v = False"

text \<open>The order NumPy sorts by: ascending, NaN after every other value.\<close>

fun sort_le :: "float64 \<Rightarrow> float64 \<Rightarrow> bool" where
  "sort_le v NaN = True"
| "sort_le NaN v = False"
| "sort_le NInf v = True"
| "sort_le v NInf = False"
| "sort_le v PInf = True"
| "sort_le PInf v = False"
| "sort_le (Fin a) (Fin b) = (a \<le> b)"

instantiation float64 :: linorder
begin

definition less_eq_float64 :: "float64 \<Rightarrow> float64 \<Rightarrow> bool" where
  "less_eq_float64 a b = sort_le a b"

definition less_float64 :: "float64 \<Rightarrow> float64 \<Rightarrow> bool" where
  "less_float64 a b = (sort_le a b \<and> \<not> sort_le b a)"

instance
proof
  fix x y z :: float64
  show "(x < y) = (x \<le> y \<and> \<not> y \<le> x)"
    by (simp add: less_eq_float64_def less_float64_def)
  show "x \<le> x"
    by (cases x) (simp_all add: less_eq_float64_def)
  show "x \<le> y \<Longrightarrow> y \<le> z \<Longrightarrow> x \<le> z"
    by (cases x; cases y; cases z) (simp_all add: less_eq_float64_def)
  show "x \<le> y \<Longrightarrow> y \<le> x \<Longrightarrow> x = y"
    by (cases x; cases y) (simp_all add: less_eq_float64_def)
  show "x \<le> y \<or> y \<le> x"
    by (cases x; cases y) (auto simp add: less_eq_float64_def)
qed

end

text \<open>
  The IEEE comparison \<open>a \<le> b\<close>, false when an operand is NaN, and the two
  arithmetic operations \<open>slope_at_point\<close> applies itself.
\<close>

definition ieee_le :: "float64 \<Rightarrow> float64 \<Rightarrow> bool" where
  "ieee_le a b = (\<not> isnan a \<and> \<not> isnan b \<and> sort_le a b)"

fun fsub :: "float64 \<Rightarrow> float64 \<Rightarrow> float64" where
  "fsub NaN v = NaN"
| "fsub v NaN = NaN"
| "fsub (Fin a) (Fin b) = Fin (a - b)"
| "fsub (Fin a) PInf = NInf"
| "fsub (Fin a) NInf = PInf"
| "fsub PInf PInf = NaN"
| "fsub PInf v = PInf"
| "fsub NInf NInf = NaN"
| "fsub NInf v = NInf"

fun fabs :: "float64 \<Rightarrow> float64" where
  "fabs (Fin a) = Fin \<bar>a\<bar>"
| "fabs PInf = PInf"
| "fabs NInf = PInf"
| "fabs NaN = NaN"

subsection \<open>Exceptions, values and expressions of the host language\<close>

text \<open>Each exception carries the text \<open>str(ex)\<close> gives.\<close>

datatype pyerror =
    SyntaxError string
  | NameError string
  | TypeError string
  | AttributeError string
  | ZeroDivisionError string
  | OverflowError string
  | IndexError string
  | LinAlgError string
  | ValueError string

fun str_ex :: "pyerror \<Rightarrow> string" where
  "str_ex (SyntaxError m) = m"
| "str_ex (NameError m) = m"
| "str_ex (TypeError m) = m"
| "str_ex (AttributeError m) = m"
| "str_ex (ZeroDivisionError m) = m"
| "str_ex (OverflowError m) = m"
| "str_ex (IndexError m) = m"
| "str_ex (LinAlgError m) = m"
| "str_ex (ValueError m) = m"

text \<open>
  An array has a shape and its elements in row order; a NumPy scalar is an array of
  shape \<open>[]\<close>. The arrays the analyzer works on are one-dimensional and are plain
  lists there.
\<close>

datatype ndarray = NdArray (shape: "nat list") (elems: "float64 list")

text \<open>
  The objects an expression can evaluate to: numbers, the NumPy functions bound in the
  namespace, modules, the empty builtins dictionary, and any other object, which only
  attribute access can produce.
\<close>

datatype number = PyFloat float64 | PyArray ndarray

datatype pyvalue =
    Number number
  | Ufunc string
  | Module string
  | PyDict
  | PyObject string

datatype binop = Add | Sub | Mult | Div | Pow

text \<open>
  The abstract syntax of the formulas, after Python's \<open>ast\<close>: numeric literals,
  names, unary minus, the five arithmetic operators, calls and attribute access.
\<close>

datatype pyexpr =
    Constant float64
  | Name string
  | USub pyexpr
  | BinOp pyexpr binop pyexpr
  | Call pyexpr "pyexpr list"
  | Attribute pyexpr string

subsection \<open>The host: what the program takes from Python and NumPy\<close>

text \<open>
  \<open>'w\<close> is the state the program cannot see: the operating system's entropy that
  seeds \<open>default_rng()\<close> and NumPy's global generator. Only \<open>rng_choice\<close> and a
  call of an object reached through attribute access read it.
\<close>

record 'w host =
  py_compile :: "string \<Rightarrow> pyerror + pyexpr"
  py_binop :: "binop \<Rightarrow> number \<Rightarrow> number \<Rightarrow> pyerror + number"
  py_neg :: "number \<Rightarrow> pyerror + number"
  np_ufunc :: "string \<Rightarrow> pyvalue list \<Rightarrow> pyerror + number"
  py_getattr :: "pyvalue \<Rightarrow> string \<Rightarrow> pyerror + pyvalue"
  py_object_binop :: "binop \<Rightarrow> pyvalue \<Rightarrow> pyvalue \<Rightarrow> pyerror + pyvalue"
  py_object_neg :: "pyvalue \<Rightarrow> pyerror + pyvalue"
  py_call_object :: "string \<Rightarrow> pyvalue list \<Rightarrow> 'w \<Rightarrow> (pyerror + pyvalue) \<times> 'w"
  np_asarray_object :: "string \<Rightarrow> pyerror + ndarray"
  py_float :: "string \<Rightarrow> pyerror + float64"
  py_format :: "nat \<Rightarrow> float64 \<Rightarrow> string"
  np_argsort :: "float64 list \<Rightarrow> nat list"
  np_polyfit :: "float64 list \<Rightarrow> float64 list \<Rightarrow> nat \<Rightarrow> pyerror + float64 list"
  np_polyval :: "float64 list \<Rightarrow> float64 list \<Rightarrow> float64 list"
  np_mean :: "float64 list \<Rightarrow> float64"
  np_linspace :: "float64 \<Rightarrow> float64 \<Rightarrow> int \<Rightarrow> pyerror + float64 list"
  rng_choice :: "nat \<Rightarrow> nat \<Rightarrow> 'w \<Rightarrow> nat list \<times> 'w"

subsection \<open>Array primitives with a fixed meaning\<close>

text \<open>\<open>a[idx]\<close> with an index array: IndexError when an index is out of bounds.\<close>

definition fancy_index :: "'a list \<Rightarrow> nat list \<Rightarrow> pyerror + 'a list" where
  "fancy_index a idx =
     (if list_all (\<lambda>i. i < length a) idx then Inr (map (\<lambda>i. a ! i) idx)
      else Inl (IndexError ''index out of bounds''))"

text \<open>\<open>a[mask]\<close> with a boolean mask of the array's length.\<close>

definition mask_index :: "'a list \<Rightarrow> bool list \<Rightarrow> 'a list" where
  "mask_index a keep = map fst (filter snd (zip a keep))"

text \<open>
  \<open>a[lo:hi]\<close>: a negative bound counts from the end, and both are clamped to the
  array; a slice never raises.
\<close>

definition slice_bound :: "nat \<Rightarrow> int \<Rightarrow> nat" where
  "slice_bound n i = (if i < 0 then nat (max 0 (int n + i)) else min n (nat i))"

definition py_slice :: "'a list \<Rightarrow> int \<Rightarrow> int \<Rightarrow> 'a list" where
  "py_slice a lo hi = drop (slice_bound (length a) lo) (take (slice_bound (length a) hi) a)"

text \<open>
  \<open>np.argmin\<close>: the index of the first minimum; a NaN counts as the minimum, so the
  scan stops at the first NaN. ValueError on an empty array.
\<close>

fun argmin_loop :: "float64 list \<Rightarrow> nat \<Rightarrow> float64 \<Rightarrow> nat \<Rightarrow> nat" where
  "argmin_loop [] i mp min_ind = min_ind"
| "argmin_loop (v # vs) i mp min_ind =
     (if isnan mp then min_ind
      else if \<not> ieee_le mp v then argmin_loop vs (Suc i) v i
      else argmin_loop vs (Suc i) mp min_ind)"

definition np_argmin :: "float64 list \<Rightarrow> pyerror + nat" where
  "np_argmin a =
     (case a of
        [] \<Rightarrow> Inl (ValueError ''attempt to get argmin of an empty sequence'')
      | v # vs \<Rightarrow> Inr (argmin_loop vs 1 v 0))"

text \<open>\<open>np.unique\<close>: the distinct values, sorted; all NaNs count as one value.\<close>

definition np_unique :: "float64 list \<Rightarrow> float64 list" where
  "np_unique a = sort (remdups a)"

subsection \<open>slope_at_point\<close>

text \<open>The three lines \<open>order = np.argsort(x); xs = x[order]; ys = y[order]\<close>.\<close>

definition sort_by_x ::
  "'w host \<Rightarrow> float64 list \<Rightarrow> float64 list \<Rightarrow> pyerror + float64 list \<times> float64 list" where
  "sort_by_x H x y =
     (let order = np_argsort H x in
      case fancy_index x order of
        Inl ex \<Rightarrow> Inl ex
      | Inr xs \<Rightarrow>
          (case fancy_index y order of
             Inl ex \<Rightarrow> Inl ex
           | Inr ys \<Rightarrow> Inr (xs, ys)))"

text \<open>
  The \<open>try\<close> block at the end: \<open>m, b = np.polyfit(xw, yw, 1); return float(m)\<close>,
  and NaN on any exception, also the one the unpacking raises.
\<close>

definition try_polyfit_slope :: "'w host \<Rightarrow> float64 list \<Rightarrow> float64 list \<Rightarrow> float64" where
  "try_polyfit_slope H xw yw =
     (case np_polyfit H xw yw 1 of
        Inl ex \<Rightarrow> NaN
      | Inr [m, b] \<Rightarrow> m
      | Inr coeffs \<Rightarrow> NaN)"

definition slope_at_point ::
  "'w host \<Rightarrow> float64 list \<Rightarrow> float64 list \<Rightarrow> float64 \<Rightarrow> int \<Rightarrow> pyerror + float64" where
  "slope_at_point H x y x0 window =
     (if length x < 2 then Inr NaN
      else
        case sort_by_x H x y of
          Inl ex \<Rightarrow> Inl ex
        | Inr (xs, ys) \<Rightarrow>
            (case np_argmin (map (\<lambda>v. fabs (fsub v x0)) xs) of
               Inl ex \<Rightarrow> Inl ex
             | Inr idx \<Rightarrow>
                 (let lo = max 0 (int idx - window);
                      hi = min (int (length xs)) (int idx + window + 1);
                      xw = py_slice xs lo hi;
                      yw = py_slice ys lo hi
                  in if length (np_unique xw) < 2 then
                       (if length (np_unique xs) \<ge> 2 then Inr (try_polyfit_slope H xs ys)
                        else Inr NaN)
                     else Inr (try_polyfit_slope H xw yw))))"

subsection \<open>safe_eval_expression\<close>

text \<open>\<open>expr.replace("^", "**")\<close>.\<close>

fun replace_caret :: "string \<Rightarrow> string" where
  "replace_caret [] = []"
| "replace_caret (c # cs) =
     (if c = CHR ''^'' then ''**'' @ replace_caret cs else c # replace_caret cs)"

text \<open>\<open>np.pi\<close> and \<open>np.e\<close> are the doubles nearest to the two constants.\<close>

definition np_pi :: float64 where
  "np_pi = Fin (884279719003555 / 281474976710656)"

definition np_e :: float64 where
  "np_e = Fin (6121026514868073 / 2251799813685248)"

text \<open>
  The dictionary \<open>allowed\<close>, in the order of the source. Each function name is bound
  to a NumPy function, written here by its NumPy name.
\<close>

definition allowed :: "ndarray \<Rightarrow> (string \<times> pyvalue) list" where
  "allowed x_array =
     [(''x'', Number (PyArray x_array)),
      (''pi'', Number (PyFloat np_pi)), (''e'', Number (PyFloat np_e)),
      (''sin'', Ufunc ''sin''), (''cos'', Ufunc ''cos''), (''tan'', Ufunc ''tan''),
      (''asin'', Ufunc ''arcsin''), (''acos'', Ufunc ''arccos''), (''atan'', Ufunc ''arctan''),
      (''sinh'', Ufunc ''sinh''), (''cosh'', Ufunc ''cosh''), (''tanh'', Ufunc ''tanh''),
      (''exp'', Ufunc ''exp''), (''log'', Ufunc ''log''), (''log10'', Ufunc ''log10''),
      (''sqrt'', Ufunc ''sqrt''), (''abs'', Ufunc ''absolute''),
      (''floor'', Ufunc ''floor''), (''ceil'', Ufunc ''ceil''),
      (''pow'', Ufunc ''power''), (''arctan2'', Ufunc ''arctan2''),
      (''np'', Module ''numpy'')]"

text \<open>The globals given to \<open>eval\<close>: \<open>{"__builtins__": {}}\<close>.\<close>

definition eval_globals :: "(string \<times> pyvalue) list" where
  "eval_globals = [(''__builtins__'', PyDict)]"

text \<open>
  How \<open>eval\<close> resolves a name: the locals, then the globals, then the builtins, which
  are the empty dictionary the globals hold; NameError otherwise.
\<close>

definition load_name ::
  "(string \<times> pyvalue) list \<Rightarrow> (string \<times> pyvalue) list \<Rightarrow> string \<Rightarrow> pyerror + pyvalue" where
  "load_name globals locals n =
     (case map_of locals n of
        Some v \<Rightarrow> Inr v
      | None \<Rightarrow>
          (case map_of globals n of
             Some v \<Rightarrow> Inr v
           | None \<Rightarrow> Inl (NameError (''name '' @ [CHR 0x27] @ n @ [CHR 0x27] @ '' is not defined''))))"

text \<open>
  Operators and calls. Arithmetic on two numbers is the host's; an object reached
  through attribute access answers for itself; every other operand is a TypeError.
  A NumPy function of the namespace is pure; only a call of another object can read
  the hidden state.
\<close>

fun is_object :: "pyvalue \<Rightarrow> bool" where
  "is_object (PyObject n) = True"
| "is_object v = False"

definition apply_binop :: "'w host \<Rightarrow> binop \<Rightarrow> pyvalue \<Rightarrow> pyvalue \<Rightarrow> pyerror + pyvalue" where
  "apply_binop H op a b =
     (case (a, b) of
        (Number m, Number n) \<Rightarrow> map_sum id Number (py_binop H op m n)
      | _ \<Rightarrow>
          if is_object a \<or> is_object b then py_object_binop H op a b
          else Inl (TypeError ''unsupported operand type(s)''))"

definition apply_neg :: "'w host \<Rightarrow> pyvalue \<Rightarrow> pyerror + pyvalue" where
  "apply_neg H a =
     (case a of
        Number m \<Rightarrow> map_sum id Number (py_neg H m)
      | PyObject n \<Rightarrow> py_object_neg H a
      | _ \<Rightarrow> Inl (TypeError ''bad operand type for unary -''))"

fun type_name :: "pyvalue \<Rightarrow> string" where
  "type_name (Number (PyFloat c)) = ''float''"
| "type_name (Number (PyArray a)) = ''numpy.ndarray''"
| "type_name (Ufunc n) = ''numpy.ufunc''"
| "type_name (Module n) = ''module''"
| "type_name PyDict = ''dict''"
| "type_name (PyObject n) = n"

definition call_value ::
  "'w host \<Rightarrow> pyvalue \<Rightarrow> pyvalue list \<Rightarrow> 'w \<Rightarrow> (pyerror + pyvalue) \<times> 'w" where
  "call_value H f args w =
     (case f of
        Ufunc n \<Rightarrow> (map_sum id Number (np_ufunc H n args), w)
      | PyObject n \<Rightarrow> py_call_object H n args w
      | _ \<Rightarrow>
          (Inl (TypeError ([CHR 0x27] @ type_name f @ [CHR 0x27] @ '' object is not callable'')), w))"

text \<open>Evaluation, left to right; the first exception ends it.\<close>

fun eval_expr ::
  "'w host \<Rightarrow> (string \<Rightarrow> pyerror + pyvalue) \<Rightarrow> pyexpr \<Rightarrow> 'w \<Rightarrow> (pyerror + pyvalue) \<times> 'w"
and eval_args ::
  "'w host \<Rightarrow> (string \<Rightarrow> pyerror + pyvalue) \<Rightarrow> pyexpr list \<Rightarrow> 'w \<Rightarrow> (pyerror + pyvalue list) \<times> 'w"
where
  "eval_expr H env (Constant c) w = (Inr (Number (PyFloat c)), w)"
| "eval_expr H env (Name n) w = (env n, w)"
| "eval_expr H env (USub e) w =
     (case eval_expr H env e w of
        (Inl ex, w') \<Rightarrow> (Inl ex, w')
      | (Inr v, w') \<Rightarrow> (apply_neg H v, w'))"
| "eval_expr H env (BinOp l op r) w =
     (case eval_expr H env l w of
        (Inl ex, w') \<Rightarrow> (Inl ex, w')
      | (Inr a, w') \<Rightarrow>
          (case eval_expr H env r w' of
             (Inl ex, w'') \<Rightarrow> (Inl ex, w'')
           | (Inr b, w'') \<Rightarrow> (apply_binop H op a b, w'')))"
| "eval_expr H env (Call f args) w =
     (case eval_expr H env f w of
        (Inl ex, w') \<Rightarrow> (Inl ex, w')
      | (Inr fv, w') \<Rightarrow>
          (case eval_args H env args w' of
             (Inl ex, w'') \<Rightarrow> (Inl ex, w'')
           | (Inr vs, w'') \<Rightarrow> call_value H fv vs w''))"
| "eval_expr H env (Attribute e a) w =
     (case eval_expr H env e w of
        (Inl ex, w') \<Rightarrow> (Inl ex, w')
      | (Inr v, w') \<Rightarrow> (py_getattr H v a, w'))"
| "eval_args H env [] w = (Inr [], w)"
| "eval_args H env (e # es) w =
     (case eval_expr H env e w of
        (Inl ex, w') \<Rightarrow> (Inl ex, w')
      | (Inr v, w') \<Rightarrow>
          (case eval_args H env es w' of
             (Inl ex, w'') \<Rightarrow> (Inl ex, w'')
           | (Inr vs, w'') \<Rightarrow> (Inr (v # vs), w'')))"

text \<open>\<open>eval(expr, globals, locals)\<close>: compile, then evaluate.\<close>

definition py_eval ::
  "'w host \<Rightarrow> string \<Rightarrow> (string \<times> pyvalue) list \<Rightarrow> (string \<times> pyvalue) list \<Rightarrow> 'w
     \<Rightarrow> (pyerror + pyvalue) \<times> 'w" where
  "py_eval H src globals locals w =
     (case py_compile H src of
        Inl ex \<Rightarrow> (Inl ex, w)
      | Inr tree \<Rightarrow> eval_expr H (load_name globals locals) tree w)"

text \<open>\<open>np.asarray(y, dtype=float)\<close>.\<close>

definition np_asarray_float :: "'w host \<Rightarrow> pyvalue \<Rightarrow> pyerror + ndarray" where
  "np_asarray_float H v =
     (case v of
        Number (PyFloat c) \<Rightarrow> Inr (NdArray [] [c])
      | Number (PyArray a) \<Rightarrow> Inr a
      | PyObject n \<Rightarrow> np_asarray_object H n
      | _ \<Rightarrow> Inl (TypeError ''float() argument must be a string or a real number''))"

text \<open>\<open>ValueError(f"Invalid expression: {ex}")\<close>.\<close>

definition invalid_expression :: "pyerror \<Rightarrow> pyerror" where
  "invalid_expression ex = ValueError (''Invalid expression: '' @ str_ex ex)"

definition safe_eval_expression ::
  "'w host \<Rightarrow> string \<Rightarrow> ndarray \<Rightarrow> 'w \<Rightarrow> (pyerror + ndarray) \<times> 'w" where
  "safe_eval_expression H expr x_array w =
     (let expr' = replace_caret expr in
      case py_eval H expr' eval_globals (allowed x_array) w of
        (Inl ex, w') \<Rightarrow> (Inl (invalid_expression ex), w')
      | (Inr y, w') \<Rightarrow>
          (case np_asarray_float H y of
             Inl ex \<Rightarrow> (Inl (invalid_expression ex), w')
           | Inr a \<Rightarrow> (Inr a, w')))"

subsection \<open>The application state\<close>

text \<open>
  What the matplotlib axes hold: title, labels, grid, the artists drawn so far and
  whether a legend is shown. The canvas shows the axes as they were at the last
  \<open>canvas.draw()\<close>.
\<close>

datatype artist =
    Scatter "float64 list" "float64 list" string string
  | Line "float64 list" "float64 list" string string
  | Annotate string float64 float64

record axes =
  ax_title :: string
  ax_xlabel :: string
  ax_ylabel :: string
  ax_grid :: bool
  ax_artists :: "artist list"
  ax_legend :: bool

text \<open>
  The widgets \<open>draw_chart\<close> reads and writes: the mode selector, the rows of the
  table (the text of the two entries of each row), the equation and range entries, the
  axes, the status label, the canvas, and the texts \<open>messagebox.showerror\<close> has shown.
\<close>

record app =
  mode :: string
  xy_rows :: "(string \<times> string) list"
  eq_entry :: string
  xmin_entry :: string
  xmax_entry :: string
  npts_entry :: string
  ax :: axes
  status :: string
  canvas :: axes
  shown_errors :: "string list"

text \<open>The values \<open>_plot_points\<close> computes on the way, by the names of its variables.\<close>

record analysis =
  an_x :: "float64 list"
  an_y :: "float64 list"
  an_slope_fit :: "float64 option"
  an_Gx :: float64
  an_Gy :: float64
  an_rand_idx :: "nat list option"
  an_mG :: float64

subsection \<open>XYTable.get_data\<close>

definition isspace :: "char \<Rightarrow> bool" where
  "isspace c = (c \<in> set [CHR '' '', CHR 0x09, CHR 0x0A, CHR 0x0B, CHR 0x0C, CHR 0x0D,
                          CHR 0x1C, CHR 0x1D, CHR 0x1E, CHR 0x1F])"

definition py_strip :: "string \<Rightarrow> string" where
  "py_strip s = rev (dropWhile isspace (rev (dropWhile isspace s)))"

definition invalid_number :: "string \<Rightarrow> string \<Rightarrow> pyerror" where
  "invalid_number sx sy =
     ValueError (''Invalid number: x='' @ [CHR 0x27] @ sx @ [CHR 0x27] @ '', y=''
                 @ [CHR 0x27] @ sy @ [CHR 0x27])"

text \<open>
  \<open>except ValueError: raise ValueError(msg)\<close>: a ValueError is replaced, any other
  exception passes.
\<close>

fun except_ValueError :: "pyerror \<Rightarrow> pyerror \<Rightarrow> pyerror" where
  "except_ValueError (ValueError m) replacement = replacement"
| "except_ValueError ex replacement = ex"

fun get_data_loop ::
  "'w host \<Rightarrow> (string \<times> string) list \<Rightarrow> float64 list \<Rightarrow> float64 list
     \<Rightarrow> pyerror + float64 list \<times> float64 list" where
  "get_data_loop H [] xs ys = Inr (xs, ys)"
| "get_data_loop H ((ex, ey) # rows) xs ys =
     (let sx = py_strip ex; sy = py_strip ey in
      if sx = [] \<and> sy = [] then get_data_loop H rows xs ys
      else if sx = [] \<or> sy = [] then Inl (ValueError ''Each row must have both x and y values.'')
      else
        case py_float H sx of
          Inl e \<Rightarrow> Inl (except_ValueError e (invalid_number sx sy))
        | Inr xv \<Rightarrow>
            (case py_float H sy of
               Inl e \<Rightarrow> Inl (except_ValueError e (invalid_number sx sy))
             | Inr yv \<Rightarrow> get_data_loop H rows (xs @ [xv]) (ys @ [yv])))"

definition get_data ::
  "'w host \<Rightarrow> (string \<times> string) list \<Rightarrow> pyerror + float64 list \<times> float64 list" where
  "get_data H rows =
     (case get_data_loop H rows [] [] of
        Inl e \<Rightarrow> Inl e
      | Inr (xs, ys) \<Rightarrow>
          if length xs = 0 then Inl (ValueError ''Please enter at least one (x, y) pair.'')
          else Inr (xs, ys))"

subsection \<open>GraphApp._plot_points\<close>

definition point_mode :: string where
  "point_mode = ''Using x, y values''"

definition em_dash :: string where
  "em_dash = [CHR 0xE2, CHR 0x80, CHR 0x94]"

text \<open>The first four statements: \<open>ax.clear()\<close>, the grid and the two labels.\<close>

definition ax_reset :: "axes \<Rightarrow> axes" where
  "ax_reset a =
     a\<lparr>ax_title := [], ax_xlabel := ''x'', ax_ylabel := ''y'', ax_grid := True,
       ax_artists := [], ax_legend := False\<rparr>"

definition add_artists :: "axes \<Rightarrow> artist list \<Rightarrow> axes" where
  "add_artists a new = a\<lparr>ax_artists := ax_artists a @ new\<rparr>"

text \<open>
  The best-fit line (source lines 283 to 291). An exception leaves the axes as they
  are at that point.
\<close>

definition plot_fit ::
  "'w host \<Rightarrow> string \<Rightarrow> axes \<Rightarrow> float64 list \<Rightarrow> float64 list
     \<Rightarrow> (pyerror + float64 option) \<times> axes" where
  "plot_fit H md a x y =
     (if md = point_mode \<and> length x \<ge> 2 then
        case np_polyfit H x y 1 of
          Inl ex \<Rightarrow> (Inl ex, a)
        | Inr coeffs \<Rightarrow>
            (let y_fit = np_polyval H coeffs x;
                 order = np_argsort H x
             in case fancy_index x order of
                  Inl ex \<Rightarrow> (Inl ex, a)
                | Inr xo \<Rightarrow>
                    (case fancy_index y_fit order of
                       Inl ex \<Rightarrow> (Inl ex, a)
                     | Inr yo \<Rightarrow>
                         (let a' = add_artists a [Line xo yo ''#ff7f0e'' ''Best fit line'']
                          in case coeffs of
                               [] \<Rightarrow> (Inl (IndexError ''index 0 is out of bounds''), a')
                             | c # cs \<Rightarrow> (Inr (Some c), a'))))
      else (Inr None, a))"

text \<open>The two random points (source lines 298 to 306).\<close>

definition annotate_point :: "'w host \<Rightarrow> float64 \<times> float64 \<Rightarrow> artist" where
  "annotate_point H p =
     Annotate (''('' @ py_format H 3 (fst p) @ '', '' @ py_format H 3 (snd p) @ '')'')
       (fst p) (snd p)"

definition plot_random ::
  "'w host \<Rightarrow> axes \<Rightarrow> float64 list \<Rightarrow> float64 list \<Rightarrow> 'w
     \<Rightarrow> (pyerror + nat list option) \<times> axes \<times> 'w" where
  "plot_random H a x y w =
     (if length x \<ge> 2 then
        case rng_choice H (length x) (min 2 (length x)) w of
          (rand_idx, w') \<Rightarrow>
            (case fancy_index x rand_idx of
               Inl ex \<Rightarrow> (Inl ex, a, w')
             | Inr rx \<Rightarrow>
                 (case fancy_index y rand_idx of
                    Inl ex \<Rightarrow> (Inl ex, a, w')
                  | Inr ry \<Rightarrow>
                      (Inr (Some rand_idx),
                       add_artists a
                         (Scatter rx ry ''#2ca02c'' ''Random points''
                          # map (annotate_point H) (zip rx ry)),
                       w')))
      else (Inr None, a, w))"

definition subtitle :: "'w host \<Rightarrow> float64 \<Rightarrow> float64 \<Rightarrow> float64 \<Rightarrow> string" where
  "subtitle H gx gy mg =
     (if \<not> isnan mg then
        ''G=('' @ py_format H 4 gx @ '', '' @ py_format H 4 gy @ '')   |   slope at G=''
        @ py_format H 4 mg
      else ''G=('' @ py_format H 4 gx @ '', '' @ py_format H 4 gy @ '')'')"

definition status_text :: "'w host \<Rightarrow> float64 \<Rightarrow> float64 \<Rightarrow> float64 \<Rightarrow> string" where
  "status_text H gx gy mg =
     ''G Point: ('' @ py_format H 6 gx @ '', '' @ py_format H 6 gy @ '')    |    Slope at G: ''
     @ (if \<not> isnan mg then py_format H 6 mg else em_dash)"

definition plot_points ::
  "'w host \<Rightarrow> app \<Rightarrow> float64 list \<Rightarrow> float64 list \<Rightarrow> string \<Rightarrow> 'w
     \<Rightarrow> (pyerror + analysis) \<times> app \<times> 'w" where
  "plot_points H self x0 y0 title_info w =
     (let a1 = ax_reset (ax self) in
      if length x0 \<noteq> length y0 then
        (Inl (ValueError ''operands could not be broadcast together''), self\<lparr>ax := a1\<rparr>, w)
      else
        let keep = map (\<lambda>(u, v). isfinite u \<and> isfinite v) (zip x0 y0);
            x = mask_index x0 keep;
            y = mask_index y0 keep
        in
        if length x = 0 then
          (Inl (ValueError ''No valid finite data to plot.''), self\<lparr>ax := a1\<rparr>, w)
        else
          let a2 = add_artists a1 [Scatter x y ''#1f77b4'' ''Data points''] in
          case plot_fit H (mode self) a2 x y of
            (Inl ex, a3) \<Rightarrow> (Inl ex, self\<lparr>ax := a3\<rparr>, w)
          | (Inr slope_fit, a3) \<Rightarrow>
              (let gx = np_mean H x;
                   gy = np_mean H y;
                   a4 = add_artists a3 [Scatter [gx] [gy] ''#d62728'' ''G Point'']
               in case plot_random H a4 x y w of
                    (Inl ex, a5, w') \<Rightarrow> (Inl ex, self\<lparr>ax := a5\<rparr>, w')
                  | (Inr rand_idx, a5, w') \<Rightarrow>
                      (case (case slope_fit of
                               Some m \<Rightarrow> Inr m
                             | None \<Rightarrow> slope_at_point H x y gx 3) of
                         Inl ex \<Rightarrow> (Inl ex, self\<lparr>ax := a5\<rparr>, w')
                       | Inr mg \<Rightarrow>
                           (let a6 = a5\<lparr>ax_title :=
                                        title_info @ (if title_info \<noteq> [] then [CHR 0x0A] else [])
                                        @ subtitle H gx gy mg,
                                      ax_legend := True\<rparr>
                            in (Inr \<lparr>an_x = x, an_y = y, an_slope_fit = slope_fit,
                                     an_Gx = gx, an_Gy = gy, an_rand_idx = rand_idx,
                                     an_mG = mg\<rparr>,
                                self\<lparr>ax := a6, status := status_text H gx gy mg, canvas := a6\<rparr>,
                                w')))))"

subsection \<open>GraphApp.draw_chart\<close>

text \<open>\<open>int(f)\<close> for a float: truncation towards zero; NaN and the infinities raise.\<close>

definition py_int :: "float64 \<Rightarrow> pyerror + int" where
  "py_int v =
     (case v of
        Fin q \<Rightarrow> Inr (if q \<ge> 0 then \<lfloor>q\<rfloor> else \<lceil>q\<rceil>)
      | NaN \<Rightarrow> Inl (ValueError ''cannot convert float NaN to integer'')
      | _ \<Rightarrow> Inl (OverflowError ''cannot convert float infinity to integer''))"

text \<open>The inner \<open>try\<close> of the equation branch (source lines 339 to 344).\<close>

definition parse_range :: "'w host \<Rightarrow> app \<Rightarrow> pyerror + float64 \<times> float64 \<times> int" where
  "parse_range H self =
     (let numeric = ValueError ''x-range and points must be numeric.'' in
      case py_float H (py_strip (xmin_entry self)) of
        Inl e \<Rightarrow> Inl (except_ValueError e numeric)
      | Inr xmin \<Rightarrow>
          (case py_float H (py_strip (xmax_entry self)) of
             Inl e \<Rightarrow> Inl (except_ValueError e numeric)
           | Inr xmax \<Rightarrow>
               (case py_float H (py_strip (npts_entry self)) of
                  Inl e \<Rightarrow> Inl (except_ValueError e numeric)
                | Inr f \<Rightarrow>
                    (case py_int f of
                       Inl e \<Rightarrow> Inl (except_ValueError e numeric)
                     | Inr npts \<Rightarrow> Inr (xmin, xmax, npts)))))"

text \<open>The IEEE comparison \<open>a > b\<close>.\<close>

definition ieee_gt :: "float64 \<Rightarrow> float64 \<Rightarrow> bool" where
  "ieee_gt a b = (\<not> isnan a \<and> \<not> isnan b \<and> \<not> sort_le a b)"

text \<open>The body of the outer \<open>try\<close>.\<close>

definition draw_chart_try :: "'w host \<Rightarrow> app \<Rightarrow> 'w \<Rightarrow> (pyerror + analysis) \<times> app \<times> 'w" where
  "draw_chart_try H self w =
     (if mode self = point_mode then
        case get_data H (xy_rows self) of
          Inl ex \<Rightarrow> (Inl ex, self, w)
        | Inr (x, y) \<Rightarrow>
            if length x < 2 then
              (Inl (ValueError ''Please enter at least two points to draw a chart.''), self, w)
            else
              (case sort_by_x H x y of
                 Inl ex \<Rightarrow> (Inl ex, self, w)
               | Inr (xs, ys) \<Rightarrow> plot_points H self xs ys ''From x, y values'' w)
      else
        let expr = py_strip (eq_entry self) in
        if expr = [] then
          (Inl (ValueError ''Please enter an equation for y in terms of x.''), self, w)
        else
          case parse_range H self of
            Inl ex \<Rightarrow> (Inl ex, self, w)
          | Inr (xmin, xmax, npts) \<Rightarrow>
              if \<not> ieee_gt xmax xmin then
                (Inl (ValueError ''x max must be greater than x min.''), self, w)
              else if npts < 10 then
                (Inl (ValueError ''Use at least 10 points for a meaningful curve.''), self, w)
              else
                (case np_linspace H xmin xmax npts of
                   Inl ex \<Rightarrow> (Inl ex, self, w)
                 | Inr x \<Rightarrow>
                     (case safe_eval_expression H expr (NdArray [length x] x) w of
                        (Inl ex, w') \<Rightarrow> (Inl ex, self, w')
                      | (Inr y, w') \<Rightarrow>
                          if shape y \<noteq> [length x] then
                            (Inl (ValueError
                                   ''The expression did not evaluate to a vector of y values.''),
                             self, w')
                          else plot_points H self x (elems y) (''y = '' @ expr) w')))"

text \<open>
  \<open>draw_chart\<close>: every exception of the body ends in \<open>messagebox.showerror\<close>, with the
  application in the state the body left it in.
\<close>

definition draw_chart :: "'w host \<Rightarrow> app \<Rightarrow> 'w \<Rightarrow> app \<times> 'w" where
  "draw_chart H self w =
     (case draw_chart_try H self w of
        (Inl ex, self', w') \<Rightarrow> (self'\<lparr>shown_errors := shown_errors self' @ [str_ex ex]\<rparr>, w')
      | (Inr r, self', w') \<Rightarrow> (self', w'))"

subsection \<open>A host in exact arithmetic\<close>

text \<open>
  \<open>np_exact\<close> is a small host on which the functions above run: IEEE arithmetic
  without rounding, the functions that map rationals to rationals, a stable
  \<open>argsort\<close>, the least-squares line by the normal equations, and a counter for the
  hidden state. The functions whose values are irrational raise on it, numbers print as
  fractions, and its parser knows the formulas of \<open>sample_sources\<close> only, each with the
  tree Python's \<open>ast.parse\<close> gives.
\<close>

fun fneg :: "float64 \<Rightarrow> float64" where
  "fneg (Fin a) = Fin (- a)"
| "fneg PInf = NInf"
| "fneg NInf = PInf"
| "fneg NaN = NaN"

definition fadd :: "float64 \<Rightarrow> float64 \<Rightarrow> float64" where
  "fadd a b = fsub a (fneg b)"

definition fsign :: "float64 \<Rightarrow> int" where
  "fsign v = (case v of Fin q \<Rightarrow> (if q > 0 then 1 else if q < 0 then - 1 else 0)
              | PInf \<Rightarrow> 1 | NInf \<Rightarrow> - 1 | NaN \<Rightarrow> 0)"

definition inf_of_sign :: "int \<Rightarrow> float64" where
  "inf_of_sign k = (if k > 0 then PInf else if k < 0 then NInf else NaN)"

fun fmul :: "float64 \<Rightarrow> float64 \<Rightarrow> float64" where
  "fmul NaN v = NaN"
| "fmul v NaN = NaN"
| "fmul (Fin a) (Fin b) = Fin (a * b)"
| "fmul u v = inf_of_sign (fsign u * fsign v)"

fun fdiv :: "float64 \<Rightarrow> float64 \<Rightarrow> float64" where
  "fdiv NaN v = NaN"
| "fdiv v NaN = NaN"
| "fdiv (Fin a) (Fin b) = (if b = 0 then inf_of_sign (fsign (Fin a)) else Fin (a / b))"
| "fdiv (Fin a) v = Fin 0"
| "fdiv u (Fin b) = inf_of_sign (fsign u * (if b < 0 then - 1 else 1))"
| "fdiv u v = NaN"

definition fpow :: "float64 \<Rightarrow> float64 \<Rightarrow> pyerror + float64" where
  "fpow a b =
     (case (a, b) of
        (Fin p, Fin q) \<Rightarrow>
          if q \<ge> 0 \<and> of_int \<lfloor>q\<rfloor> = q then Inr (Fin (p ^ nat \<lfloor>q\<rfloor>))
          else Inl (OverflowError ''power outside exact arithmetic'')
      | _ \<Rightarrow> Inl (OverflowError ''power outside exact arithmetic''))"

definition exact_op :: "binop \<Rightarrow> float64 \<Rightarrow> float64 \<Rightarrow> pyerror + float64" where
  "exact_op op a b =
     (case op of
        Add \<Rightarrow> Inr (fadd a b)
      | Sub \<Rightarrow> Inr (fsub a b)
      | Mult \<Rightarrow> Inr (fmul a b)
      | Div \<Rightarrow> Inr (fdiv a b)
      | Pow \<Rightarrow> fpow a b)"

fun sequence_sum :: "('e + 'a) list \<Rightarrow> 'e + 'a list" where
  "sequence_sum [] = Inr []"
| "sequence_sum (Inl e # rs) = Inl e"
| "sequence_sum (Inr v # rs) = (case sequence_sum rs of Inl e \<Rightarrow> Inl e | Inr vs \<Rightarrow> Inr (v # vs))"

text \<open>Elementwise on two arrays of one shape, or of an array and a scalar.\<close>

definition broadcast ::
  "(float64 \<Rightarrow> float64 \<Rightarrow> pyerror + float64) \<Rightarrow> ndarray \<Rightarrow> ndarray \<Rightarrow> pyerror + ndarray" where
  "broadcast f a b =
     (if shape a = shape b then
        map_sum id (NdArray (shape a)) (sequence_sum (map (\<lambda>(u, v). f u v) (zip (elems a) (elems b))))
      else if shape a = [] then
        map_sum id (NdArray (shape b)) (sequence_sum (map (\<lambda>v. f (hd (elems a)) v) (elems b)))
      else if shape b = [] then
        map_sum id (NdArray (shape a)) (sequence_sum (map (\<lambda>u. f u (hd (elems b))) (elems a)))
      else Inl (ValueError ''operands could not be broadcast together''))"

fun as_array :: "number \<Rightarrow> ndarray" where
  "as_array (PyFloat c) = NdArray [] [c]"
| "as_array (PyArray a) = a"

text \<open>
  Two Python floats divide with ZeroDivisionError; as soon as an array takes part the
  division is NumPy's and gives an infinity or NaN.
\<close>

definition exact_binop :: "binop \<Rightarrow> number \<Rightarrow> number \<Rightarrow> pyerror + number" where
  "exact_binop op m n =
     (case (m, n) of
        (PyFloat a, PyFloat b) \<Rightarrow>
          if op = Div \<and> b = Fin 0 then Inl (ZeroDivisionError ''float division by zero'')
          else map_sum id PyFloat (exact_op op a b)
      | _ \<Rightarrow> map_sum id PyArray (broadcast (exact_op op) (as_array m) (as_array n)))"

definition exact_neg :: "number \<Rightarrow> pyerror + number" where
  "exact_neg m =
     (case m of
        PyFloat a \<Rightarrow> Inr (PyFloat (fneg a))
      | PyArray a \<Rightarrow> Inr (PyArray (NdArray (shape a) (map fneg (elems a)))))"

definition ffloor :: "float64 \<Rightarrow> float64" where
  "ffloor v = (case v of Fin q \<Rightarrow> Fin (of_int \<lfloor>q\<rfloor>) | _ \<Rightarrow> v)"

definition fceil :: "float64 \<Rightarrow> float64" where
  "fceil v = (case v of Fin q \<Rightarrow> Fin (of_int \<lceil>q\<rceil>) | _ \<Rightarrow> v)"

definition exact_ufunc :: "string \<Rightarrow> pyvalue list \<Rightarrow> pyerror + number" where
  "exact_ufunc name args =
     (case args of
        [Number m] \<Rightarrow>
          if name = ''absolute'' then Inr (PyArray (NdArray (shape (as_array m)) (map fabs (elems (as_array m)))))
          else if name = ''floor'' then Inr (PyArray (NdArray (shape (as_array m)) (map ffloor (elems (as_array m)))))
          else if name = ''ceil'' then Inr (PyArray (NdArray (shape (as_array m)) (map fceil (elems (as_array m)))))
          else Inl (TypeError (name @ '' is outside exact arithmetic''))
      | [Number m, Number n] \<Rightarrow>
          if name = ''power'' then map_sum id PyArray (broadcast fpow (as_array m) (as_array n))
          else Inl (TypeError (name @ '' is outside exact arithmetic''))
      | _ \<Rightarrow> Inl (TypeError ''ufunc got arguments it does not take''))"

definition exact_getattr :: "pyvalue \<Rightarrow> string \<Rightarrow> pyerror + pyvalue" where
  "exact_getattr v a =
     (if v = Module ''numpy'' \<and> a = ''random'' then Inr (Module ''numpy.random'')
      else if v = Module ''numpy'' \<and> a = ''pi'' then Inr (Number (PyFloat np_pi))
      else if v = Module ''numpy'' \<and> a = ''inf'' then Inr (Number (PyFloat PInf))
      else if v = Module ''numpy'' \<and> a = ''nan'' then Inr (Number (PyFloat NaN))
      else if v = Module ''numpy.random'' \<and> a = ''rand'' then Inr (PyObject ''numpy.random.rand'')
      else Inl (AttributeError (''no attribute '' @ [CHR 0x27] @ a @ [CHR 0x27])))"

text \<open>
  \<open>np.random.rand(n)\<close> draws from NumPy's global generator: the values depend on the
  hidden state, and the call advances it.
\<close>

definition exact_call_object ::
  "string \<Rightarrow> pyvalue list \<Rightarrow> nat \<Rightarrow> (pyerror + pyvalue) \<times> nat" where
  "exact_call_object name args w =
     (case args of
        [Number (PyFloat (Fin q))] \<Rightarrow>
          if name = ''numpy.random.rand'' \<and> q \<ge> 0 \<and> of_int \<lfloor>q\<rfloor> = q then
            (Inr (Number (PyArray (NdArray [nat \<lfloor>q\<rfloor>]
                    (map (\<lambda>i. Fin (of_nat ((w + i) mod 7) / 7)) [0..<nat \<lfloor>q\<rfloor>])))),
             w + nat \<lfloor>q\<rfloor>)
          else (Inl (TypeError ''object is not callable''), w)
      | _ \<Rightarrow> (Inl (TypeError ''object is not callable''), w))"

text \<open>\<open>float(s)\<close> for \<open>nan\<close>, \<open>inf\<close>, \<open>-inf\<close> and decimal numerals without exponent.\<close>

definition is_digit :: "char \<Rightarrow> bool" where
  "is_digit c = (48 \<le> (of_char c :: nat) \<and> (of_char c :: nat) \<le> 57)"

definition digits_value :: "string \<Rightarrow> nat" where
  "digits_value ds = foldl (\<lambda>acc c. 10 * acc + (of_char c - 48)) 0 ds"

definition unsigned_decimal :: "string \<Rightarrow> rat option" where
  "unsigned_decimal s =
     (let ip = takeWhile (\<lambda>c. c \<noteq> CHR ''.'') s;
          fp = drop (Suc (length ip)) s
      in if list_all is_digit ip \<and> list_all is_digit fp \<and> (ip \<noteq> [] \<or> fp \<noteq> [])
            \<and> (length ip < length s \<or> ip \<noteq> [])
         then Some (of_nat (digits_value ip) + of_nat (digits_value fp) / 10 ^ length fp)
         else None)"

definition exact_float :: "string \<Rightarrow> pyerror + float64" where
  "exact_float s =
     (if s = ''nan'' then Inr NaN
      else if s = ''inf'' then Inr PInf
      else if s = ''-inf'' then Inr NInf
      else
        case s of
          [] \<Rightarrow> Inl (ValueError ''could not convert string to float'')
        | c # cs \<Rightarrow>
            (if c = CHR ''-'' then
               (case unsigned_decimal cs of
                  Some q \<Rightarrow> Inr (Fin (- q))
                | None \<Rightarrow> Inl (ValueError ''could not convert string to float''))
             else
               (case unsigned_decimal s of
                  Some q \<Rightarrow> Inr (Fin q)
                | None \<Rightarrow> Inl (ValueError ''could not convert string to float''))))"

text \<open>Numbers print exactly, as an integer or a fraction, whatever the precision asked.\<close>

fun show_nat_fuel :: "nat \<Rightarrow> nat \<Rightarrow> string" where
  "show_nat_fuel 0 n = []"
| "show_nat_fuel (Suc k) n =
     (if n < 10 then [char_of (48 + n)]
      else show_nat_fuel k (n div 10) @ [char_of (48 + n mod 10)])"

definition show_nat :: "nat \<Rightarrow> string" where
  "show_nat n = show_nat_fuel (Suc n) n"

definition show_int :: "int \<Rightarrow> string" where
  "show_int i = (if i < 0 then ''-'' @ show_nat (nat (- i)) else show_nat (nat i))"

definition exact_format :: "nat \<Rightarrow> float64 \<Rightarrow> string" where
  "exact_format digits v =
     (case v of
        NaN \<Rightarrow> ''nan''
      | PInf \<Rightarrow> ''inf''
      | NInf \<Rightarrow> ''-inf''
      | Fin q \<Rightarrow>
          (case quotient_of q of
             (n, d) \<Rightarrow> if d = 1 then show_int n else show_int n @ ''/'' @ show_int d))"

text \<open>A stable argsort: equal values keep the order of their indices.\<close>

definition stable_argsort :: "float64 list \<Rightarrow> nat list" where
  "stable_argsort x = map snd (sort_key fst (zip x [0..<length x]))"

definition fin_value :: "float64 \<Rightarrow> rat" where
  "fin_value v = (case v of Fin q \<Rightarrow> q | _ \<Rightarrow> 0)"

text \<open>
  The least-squares line through the points, by the normal equations; when all x are
  equal, the solution of least norm, as \<open>lstsq\<close> gives it.
\<close>

definition ols_line :: "rat list \<Rightarrow> rat list \<Rightarrow> rat \<times> rat" where
  "ols_line x y =
     (let n = of_nat (length x);
          sx = sum_list x;
          sy = sum_list y;
          sxx = sum_list (map (\<lambda>u. u * u) x);
          sxy = sum_list (map (\<lambda>(u, v). u * v) (zip x y));
          d = n * sxx - sx * sx
      in if d = 0 then
           (let c = sx / n; m = sy / n in (c * m / (c * c + 1), m / (c * c + 1)))
         else
           (let m = (n * sxy - sx * sy) / d in (m, (sy - m * sx) / n)))"

definition exact_polyfit :: "float64 list \<Rightarrow> float64 list \<Rightarrow> nat \<Rightarrow> pyerror + float64 list" where
  "exact_polyfit x y deg =
     (if x = [] then Inl (TypeError ''expected non-empty vector for x'')
      else if length x \<noteq> length y then Inl (TypeError ''expected x and y to have same length'')
      else if deg \<noteq> 1 then Inl (ValueError ''only the line is fitted in exact arithmetic'')
      else if \<not> (list_all isfinite x \<and> list_all isfinite y) then
        Inl (LinAlgError ''SVD did not converge in Linear Least Squares'')
      else
        case ols_line (map fin_value x) (map fin_value y) of
          (m, b) \<Rightarrow> Inr [Fin m, Fin b])"

definition exact_polyval :: "float64 list \<Rightarrow> float64 list \<Rightarrow> float64 list" where
  "exact_polyval coeffs x = map (\<lambda>u. foldl (\<lambda>acc c. fadd (fmul acc u) c) (Fin 0) coeffs) x"

definition exact_mean :: "float64 list \<Rightarrow> float64" where
  "exact_mean a = (if a = [] then NaN else fdiv (foldl fadd (Fin 0) a) (Fin (of_nat (length a))))"

definition exact_linspace :: "float64 \<Rightarrow> float64 \<Rightarrow> int \<Rightarrow> pyerror + float64 list" where
  "exact_linspace a b n =
     (if n < 0 then Inl (ValueError ''Number of samples must be non-negative'')
      else if n = 1 then Inr [a]
      else
        Inr (map (\<lambda>i. fadd a (fmul (Fin (of_nat i)) (fdiv (fsub b a) (Fin (of_int (n - 1))))))
               [0..<nat n]))"

text \<open>
  \<open>default_rng().choice(n, size=k, replace=False)\<close>: \<open>k\<close> distinct indices below
  \<open>n\<close>, which ones depends on the hidden state.
\<close>

definition exact_choice :: "nat \<Rightarrow> nat \<Rightarrow> nat \<Rightarrow> nat list \<times> nat" where
  "exact_choice n k w = (take k (rotate (w mod n) [0..<n]), Suc w)"

definition sample_sources :: "(string \<times> pyexpr) list" where
  "sample_sources =
     [(''x**2'', BinOp (Name ''x'') Pow (Constant (Fin 2))),
      (''2'', Constant (Fin 2)),
      (''pi(x)'', Call (Name ''pi'') [Name ''x'']),
      (''abs(x) + y'', BinOp (Call (Name ''abs'') [Name ''x'']) Add (Name ''y'')),
      (''atan2(x, x)'', Call (Name ''atan2'') [Name ''x'', Name ''x'']),
      (''arctan2(x, x)'', Call (Name ''arctan2'') [Name ''x'', Name ''x'']),
      (''x/0'', BinOp (Name ''x'') Div (Constant (Fin 0))),
      (''np.random.rand(10)'',
         Call (Attribute (Attribute (Name ''np'') ''random'') ''rand'') [Constant (Fin 10)])]"

definition exact_compile :: "string \<Rightarrow> pyerror + pyexpr" where
  "exact_compile src =
     (case map_of sample_sources src of
        Some tree \<Rightarrow> Inr tree
      | None \<Rightarrow> Inl (SyntaxError ''invalid syntax''))"

definition np_exact :: "nat host" where
  "np_exact =
     \<lparr>py_compile = exact_compile,
      py_binop = exact_binop,
      py_neg = exact_neg,
      np_ufunc = exact_ufunc,
      py_getattr = exact_getattr,
      py_object_binop = (\<lambda>op a b. Inl (TypeError ''unsupported operand type(s)'')),
      py_object_neg = (\<lambda>a. Inl (TypeError ''bad operand type for unary -'')),
      py_call_object = exact_call_object,
      np_asarray_object = (\<lambda>n. Inl (TypeError ''float() argument must be a string or a real number'')),
      py_float = exact_float,
      py_format = exact_format,
      np_argsort = stable_argsort,
      np_polyfit = exact_polyfit,
      np_polyval = exact_polyval,
      np_mean = exact_mean,
      np_linspace = exact_linspace,
      rng_choice = exact_choice\<rparr>"

subsection \<open>The application as it starts\<close>

text \<open>
  The state after \<open>GraphApp()\<close> and the five empty rows the main block adds: the
  texts the constructor puts into the entries, the empty axes of \<open>_build_plot\<close>.
\<close>

definition initial_axes :: axes where
  "initial_axes =
     \<lparr>ax_title = ''Your chart will appear here'', ax_xlabel = ''x'', ax_ylabel = ''y'',
      ax_grid = True, ax_artists = [], ax_legend = False\<rparr>"

definition initial_app :: app where
  "initial_app =
     \<lparr>mode = point_mode,
      xy_rows = replicate 5 ([], []),
      eq_entry = ''sin(x) + 0.5*x'',
      xmin_entry = ''-10'', xmax_entry = ''10'', npts_entry = ''400'',
      ax = initial_axes,
      status = ''G Point: '' @ em_dash @ ''    |    Slope at G: '' @ em_dash,
      canvas = initial_axes,
      shown_errors = []\<rparr>"

subsection \<open>Notions the properties are stated with\<close>

text \<open>The pairs of two arrays whose coordinates are both finite, in their order.\<close>

definition finite_pairs :: "float64 list \<Rightarrow> float64 list \<Rightarrow> (float64 \<times> float64) list" where
  "finite_pairs x y = filter (\<lambda>(u, v). isfinite u \<and> isfinite v) (zip x y)"









subsection \<open>Sample requests\<close>

text \<open>
  The rows \<open>_load_xy_sample\<close> enters; the application after drawing them on
  \<open>np_exact\<close>; that application with the two rows \<open>(nan, 1)\<close>, \<open>(nan, 2)\<close> typed
  into the table instead; and the application in equation mode with the constant
  \<open>2\<close> as its formula, over ten points.
\<close>

definition sample_rows :: "(string \<times> string) list" where
  "sample_rows =
     [(''-2'', ''4''), (''-1'', ''1''), (''0'', ''0''), (''1'', ''1''), (''2'', ''4''), ([], [])]"

definition sample_drawn :: app where
  "sample_drawn = fst (draw_chart np_exact (initial_app\<lparr>xy_rows := sample_rows\<rparr>) 0)"

definition nan_rows_request :: app where
  "nan_rows_request = sample_drawn\<lparr>xy_rows := [(''nan'', ''1''), (''nan'', ''2'')]\<rparr>"


subsection \<open>An argsort that is not stable\<close>



section \<open>Properties\<close>

subsection \<open>Filtering and the data drawn\<close>

lemma mask_index_fst:
  "length x = length y \<Longrightarrow>
   mask_index x (map P (zip x y)) = map fst (filter P (zip x y))"
  unfolding mask_index_def
  by (induction x y rule: list_induct2) auto

lemma mask_index_snd:
  "length x = length y \<Longrightarrow>
   mask_index y (map P (zip x y)) = map snd (filter P (zip x y))"
  unfolding mask_index_def
  by (induction x y rule: list_induct2) auto

lemma plot_fit_artists:
  "set (ax_artists a) \<subseteq> set (ax_artists (snd (plot_fit H md a x y)))"
  unfolding plot_fit_def add_artists_def
  by (auto simp: Let_def split: sum.splits list.splits)

lemma plot_random_artists:
  "set (ax_artists a) \<subseteq> set (ax_artists (fst (snd (plot_random H a x y w))))"
  unfolding plot_random_def add_artists_def
  by (auto simp: Let_def split: sum.splits list.splits prod.splits)

lemma plot_points_empty:
  assumes "length x = length y" "finite_pairs x y = []"
  shows "plot_points H self x y t w =
     (Inl (ValueError ''No valid finite data to plot.''), self\<lparr>ax := ax_reset (ax self)\<rparr>, w)"
  using assms unfolding plot_points_def finite_pairs_def
  by (simp add: Let_def mask_index_fst)

lemma plot_points_result:
  assumes "length x = length y" "fst (plot_points H self x y t w) = Inr a"
  shows "an_x a = map fst (finite_pairs x y) \<and> an_y a = map snd (finite_pairs x y)"
  using assms unfolding plot_points_def finite_pairs_def
  by (auto simp: Let_def mask_index_fst mask_index_snd split: if_splits prod.splits sum.splits)

lemma plot_points_scatter:
  assumes "length x = length y" "finite_pairs x y \<noteq> []"
  shows "Scatter (map fst (finite_pairs x y)) (map snd (finite_pairs x y)) ''#1f77b4'' ''Data points''
     \<in> set (ax_artists (ax (fst (snd (plot_points H self x y t w)))))"
proof -
  let ?xf = "map fst (finite_pairs x y)" and ?yf = "map snd (finite_pairs x y)"
  let ?a2 = "add_artists (ax_reset (ax self)) [Scatter ?xf ?yf ''#1f77b4'' ''Data points'']"
  let ?s = "Scatter ?xf ?yf ''#1f77b4'' ''Data points''"
  have in2: "?s \<in> set (ax_artists ?a2)" by (simp add: add_artists_def)
  obtain r3 a3 where pf: "plot_fit H (mode self) ?a2 ?xf ?yf = (r3, a3)" by fastforce
  have in3: "?s \<in> set (ax_artists a3)"
    using plot_fit_artists[of ?a2 H "mode self" ?xf ?yf] in2 pf by auto
  let ?a4 = "add_artists a3 [Scatter [np_mean H ?xf] [np_mean H ?yf] ''#d62728'' ''G Point'']"
  have in4: "?s \<in> set (ax_artists ?a4)" using in3 by (simp add: add_artists_def)
  obtain r5 a5 w5 where pr: "plot_random H ?a4 ?xf ?yf w = (r5, a5, w5)"
    using prod_cases3 by blast
  have in5: "?s \<in> set (ax_artists a5)"
    using plot_random_artists[of ?a4 H ?xf ?yf w] in4 pr by auto
  show ?thesis
    using assms in3 in5 pf pr unfolding plot_points_def
    by (auto simp: Let_def mask_index_fst mask_index_snd
          simp flip: finite_pairs_def split: sum.splits option.splits)
qed

text \<open>
  Claim C7. \<open>_plot_points\<close> keeps exactly the pairs whose two coordinates are finite,
  in their order: they are the data points it draws and the data of its result. When
  no pair is left it raises the ValueError "No valid finite data to plot." (the spec's
  EmptyDataError), and so it does whenever every y is NaN or infinite.
\<close>

theorem plot_points_finiteness_filter:
  assumes "length x = length y"
  shows "(finite_pairs x y = [] \<longrightarrow>
            fst (plot_points H self x y title_info w)
              = Inl (ValueError ''No valid finite data to plot.''))
       \<and> (list_all (\<lambda>v. \<not> isfinite v) y \<longrightarrow>
            fst (plot_points H self x y title_info w)
              = Inl (ValueError ''No valid finite data to plot.''))
       \<and> (finite_pairs x y \<noteq> [] \<longrightarrow>
            Scatter (map fst (finite_pairs x y)) (map snd (finite_pairs x y))
              ''#1f77b4'' ''Data points''
              \<in> set (ax_artists (ax (fst (snd (plot_points H self x y title_info w))))))
       \<and> (\<forall>a. fst (plot_points H self x y title_info w) = Inr a \<longrightarrow>
            an_x a = map fst (finite_pairs x y) \<and> an_y a = map snd (finite_pairs x y))"
proof -
  have e: "finite_pairs x y = []" if "list_all (\<lambda>v. \<not> isfinite v) y"
    using that unfolding finite_pairs_def
    by (auto simp: filter_empty_conv list_all_iff dest: set_zip_rightD)
  have 1: "finite_pairs x y = [] \<Longrightarrow> fst (plot_points H self x y title_info w)
              = Inl (ValueError ''No valid finite data to plot.'')"
    using plot_points_empty[OF assms, of H self title_info w] by simp
  have 3: "finite_pairs x y \<noteq> [] \<Longrightarrow>
            Scatter (map fst (finite_pairs x y)) (map snd (finite_pairs x y))
              ''#1f77b4'' ''Data points''
              \<in> set (ax_artists (ax (fst (snd (plot_points H self x y title_info w)))))"
    by (rule plot_points_scatter[OF assms])
  have 4: "fst (plot_points H self x y title_info w) = Inr a \<Longrightarrow>
            an_x a = map fst (finite_pairs x y) \<and> an_y a = map snd (finite_pairs x y)" for a
    by (rule plot_points_result[OF assms])
  show ?thesis using e 1 3 4 by blast
qed


text \<open>The filter on two inputs: one with no finite pair, one with a single finite pair.\<close>

theorem plot_points_finiteness_filter_witness:
  "fst (plot_points np_exact initial_app [Fin 1, NaN] [PInf, NInf] ''t'' 0)
     = Inl (ValueError ''No valid finite data to plot.'')
   \<and> Scatter [Fin 3] [Fin 5] ''#1f77b4'' ''Data points''
       \<in> set (ax_artists (ax (fst (snd
           (plot_points np_exact initial_app [Fin 1, NaN, Fin 3] [PInf, Fin 2, Fin 5] ''t'' 0)))))"
proof -
  have a: "fst (plot_points np_exact initial_app [Fin 1, NaN] [PInf, NInf] ''t'' 0)
     = Inl (ValueError ''No valid finite data to plot.'')"
    using plot_points_finiteness_filter
      [of "[Fin 1, NaN]" "[PInf, NInf]" np_exact initial_app "''t''" 0]
    by (simp add: finite_pairs_def)
  have b: "Scatter [Fin 3] [Fin 5] ''#1f77b4'' ''Data points''
       \<in> set (ax_artists (ax (fst (snd
           (plot_points np_exact initial_app [Fin 1, NaN, Fin 3] [PInf, Fin 2, Fin 5] ''t'' 0)))))"
    using plot_points_finiteness_filter
      [of "[Fin 1, NaN, Fin 3]" "[PInf, Fin 2, Fin 5]" np_exact initial_app "''t''" 0]
    by (simp add: finite_pairs_def)
  show ?thesis using a b by simp
qed

subsection \<open>The highlighted samples\<close>







subsection \<open>The slope at the centroid\<close>




subsection \<open>A request that fails\<close>

text \<open>
  Whatever fails, the canvas and the status line stay: \<open>canvas.draw()\<close> and
  \<open>status.configure\<close> are the last statements of \<open>_plot_points\<close>.
\<close>

lemma plot_points_error_canvas:
  "plot_points H self x y t w = (Inl ex, self', w') \<Longrightarrow>
     canvas self' = canvas self \<and> status self' = status self"
  unfolding plot_points_def
  by (auto simp: Let_def split: if_splits prod.splits sum.splits option.splits)

lemma draw_chart_error_keeps_canvas:
  assumes "shown_errors (fst (draw_chart H self w)) \<noteq> shown_errors self"
  shows "canvas (fst (draw_chart H self w)) = canvas self
       \<and> status (fst (draw_chart H self w)) = status self"
proof -
  obtain r self' w' where t: "draw_chart_try H self w = (r, self', w')"
    using prod_cases3 by blast
  show ?thesis
  proof (cases r)
    case (Inl ex)
    have "canvas self' = canvas self \<and> status self' = status self"
      using t Inl unfolding draw_chart_try_def
      by (auto simp: Let_def split: if_splits prod.splits sum.splits
            dest: plot_points_error_canvas)
    then show ?thesis using t Inl by (simp add: draw_chart_def)
  next
    case (Inr a)
    have "shown_errors self' = shown_errors self"
      using t Inr unfolding draw_chart_try_def plot_points_def
      by (auto simp: Let_def split: if_splits prod.splits sum.splits option.splits)
    then show ?thesis using t Inr assms by (simp add: draw_chart_def)
  qed
qed

text \<open>
  Claim C3 fails on the code. \<open>_plot_points\<close> clears the axes before it looks at the
  data, so the request with the rows \<open>(nan, 1)\<close>, \<open>(nan, 2)\<close> ends with the error
  message and with the six artists and the title of the chart drawn before gone from
  the axes; only the canvas still shows them.
\<close>

theorem draw_chart_failure_clears_axes:
  "shown_errors (fst (draw_chart np_exact nan_rows_request 1))
     = [''No valid finite data to plot.'']
   \<and> length (ax_artists (ax nan_rows_request)) = 6
   \<and> ax_artists (ax (fst (draw_chart np_exact nan_rows_request 1))) = []
   \<and> ax_title (ax (fst (draw_chart np_exact nan_rows_request 1))) = []
   \<and> ax (fst (draw_chart np_exact nan_rows_request 1)) \<noteq> ax nan_rows_request
   \<and> canvas (fst (draw_chart np_exact nan_rows_request 1)) = canvas nan_rows_request"
  by code_simp

subsection \<open>Sorting by x and the nearest index\<close>

lemma fancy_index_in_range:
  "\<forall>i\<in>set idx. i < length a \<Longrightarrow> fancy_index a idx = Inr (map (\<lambda>i. a ! i) idx)"
  unfolding fancy_index_def by (simp add: list_all_iff)

lemma argsort_perm_facts:
  assumes "mset order = mset [0..<n]"
  shows "set order = {0..<n}" and "length order = n"
proof -
  show "set order = {0..<n}" using assms by (metis mset_eq_setD set_upt)
  show "length order = n" using assms by (metis length_upt mset_eq_length diff_zero)
qed

lemma sort_by_x_Inr:
  assumes "length y = length x" "mset (np_argsort H x) = mset [0..<length x]"
  shows "sort_by_x H x y =
     Inr (map (\<lambda>i. x ! i) (np_argsort H x), map (\<lambda>i. y ! i) (np_argsort H x))"
  using argsort_perm_facts[OF assms(2)] assms(1) unfolding sort_by_x_def
  by (simp add: Let_def fancy_index_in_range)


lemma argmin_loop_bound:
  "k < i \<Longrightarrow> argmin_loop vs i mp k < i + length vs"
proof (induction vs arbitrary: i mp k)
  case Nil
  then show ?case by simp
next
  case (Cons v vs)
  have 1: "argmin_loop vs (Suc i) v i < Suc i + length vs"
    by (rule Cons.IH) simp
  have 2: "argmin_loop vs (Suc i) mp k < Suc i + length vs"
    by (rule Cons.IH) (use Cons.prems in simp)
  show ?case using 1 2 Cons.prems by simp
qed

lemma np_argmin_total:
  "a \<noteq> [] \<Longrightarrow> \<exists>k<length a. np_argmin a = Inr k"
proof (cases a)
  case Nil
  assume "a \<noteq> []"
  with Nil show ?thesis by simp
next
  case (Cons d vs)
  have "argmin_loop vs 1 d 0 < 1 + length vs"
    by (rule argmin_loop_bound) simp
  then show ?thesis using Cons by (simp add: np_argmin_def)
qed





lemma distance_not_nan:
  "isfinite v \<Longrightarrow> \<not> isnan x0 \<Longrightarrow> \<not> isnan (fabs (fsub v x0))"
  by (cases v; cases x0) simp_all

lemma perm_by_sorting: "sort order = [0..<n] \<Longrightarrow> mset order = mset [0..<n]"
  by (metis mset_sort)


subsection \<open>slope_at_point\<close>

text \<open>
  Claim C10. For arrays of equal length, \<open>argsort\<close> returning a permutation of the
  indices, \<open>slope_at_point\<close> returns a float and raises nothing, whatever the values
  (NaN and infinities included), the target and the window; and what it returns is NaN
  unless it is the slope a successful \<open>polyfit\<close> gave: every failure of the fit is
  turned into NaN.
\<close>

theorem slope_at_point_total:
  assumes "length y = length x"
      and "mset (np_argsort H x) = mset [0..<length x]"
  shows "(\<exists>v. slope_at_point H x y x0 window = Inr v)
       \<and> (slope_at_point H x y x0 window = Inr NaN
          \<or> (\<exists>xw yw m b. np_polyfit H xw yw 1 = Inr [m, b]
                \<and> slope_at_point H x y x0 window = Inr m))"
proof (cases "length x < 2")
  case True
  then show ?thesis by (simp add: slope_at_point_def)
next
  case False
  define xs where "xs = map (\<lambda>i. x ! i) (np_argsort H x)"
  define ys where "ys = map (\<lambda>i. y ! i) (np_argsort H x)"
  have sb: "sort_by_x H x y = Inr (xs, ys)"
    unfolding xs_def ys_def by (rule sort_by_x_Inr[OF assms])
  have "length xs = length x"
    unfolding xs_def using argsort_perm_facts(2)[OF assms(2)] by simp
  then have "map (\<lambda>v. fabs (fsub v x0)) xs \<noteq> []" using False by auto
  then obtain idx where am: "np_argmin (map (\<lambda>v. fabs (fsub v x0)) xs) = Inr idx"
    using np_argmin_total by blast
  have tp: "try_polyfit_slope H xw yw = NaN
      \<or> (\<exists>m b. np_polyfit H xw yw 1 = Inr [m, b] \<and> try_polyfit_slope H xw yw = m)" for xw yw
    unfolding try_polyfit_slope_def by (auto split: sum.splits list.splits)
  have "slope_at_point H x y x0 window = Inr NaN
      \<or> (\<exists>xw yw. slope_at_point H x y x0 window = Inr (try_polyfit_slope H xw yw))"
    using False sb am unfolding slope_at_point_def by (auto simp: Let_def)
  then show ?thesis using tp by metis
qed

text \<open>Arrays with NaN and an infinity, where the fit fails, and the empty arrays.\<close>

theorem slope_at_point_total_witness:
  "(\<exists>v. slope_at_point np_exact [NaN, Fin 1, PInf] [Fin 1, NaN, Fin 2] (Fin 0) 3 = Inr v)
   \<and> slope_at_point np_exact [NaN, Fin 1, PInf] [Fin 1, NaN, Fin 2] (Fin 0) 3 = Inr NaN
   \<and> (\<exists>v. slope_at_point np_exact [] [] NaN 3 = Inr v)"
proof -
  have o: "np_argsort np_exact [NaN, Fin 1, PInf] = [1, 2, 0]" by code_simp
  have c: "mset (np_argsort np_exact [NaN, Fin 1, PInf]) = mset [0..<length [NaN, Fin 1, PInf]]"
    by (rule perm_by_sorting) code_simp
  have e: "mset (np_argsort np_exact []) = mset [0..<length ([] :: float64 list)]"
    by (simp add: np_exact_def stable_argsort_def)
  have v: "slope_at_point np_exact [NaN, Fin 1, PInf] [Fin 1, NaN, Fin 2] (Fin 0) 3 = Inr NaN"
    by code_simp
  show ?thesis
    using slope_at_point_total[OF _ c, of "[Fin 1, NaN, Fin 2]" "Fin 0" 3]
      slope_at_point_total[OF _ e, of "[]" NaN 3] v
    by simp
qed



subsection \<open>The order of equal x values\<close>




subsection \<open>Names\<close>










subsection \<open>When evaluation fails\<close>






subsection \<open>Determinism\<close>













end
